theory Spec2Isabelle
  imports Main
begin

section \<open>Python strings and integers\<close>

text \<open>
  The converter of \<^verbatim>\<open>compress.py\<close> only builds strings and lists of strings. A Python
  \<^verbatim>\<open>str\<close> is modelled as a \<^typ>\<open>string\<close>, a Python \<^verbatim>\<open>int\<close> as an \<^typ>\<open>int\<close>, and an optional
  argument (default \<^verbatim>\<open>None\<close>) as an \<^typ>\<open>'a option\<close>. The strings are taken to be ASCII: on
  characters beyond ASCII \<open>lower\<close> below changes nothing, where Python would consult the
  Unicode tables.
\<close>

definition lower_char :: "char \<Rightarrow> char" where
  "lower_char c =
     (case map_of (zip ''ABCDEFGHIJKLMNOPQRSTUVWXYZ'' ''abcdefghijklmnopqrstuvwxyz'') c of
        None \<Rightarrow> c
      | Some l \<Rightarrow> l)"

definition lower :: "string \<Rightarrow> string" where
  \<comment> \<open>\<^verbatim>\<open>s.lower()\<close>\<close>
  "lower s = map lower_char s"

definition endswith :: "string \<Rightarrow> string \<Rightarrow> bool" where
  \<comment> \<open>\<^verbatim>\<open>s.endswith(suffix)\<close>\<close>
  "endswith s suf = (length suf \<le> length s \<and> drop (length s - length suf) s = suf)"

definition digit_char :: "nat \<Rightarrow> char" where
  "digit_char d = ''0123456789'' ! d"

fun str_nat :: "nat \<Rightarrow> string" where
  "str_nat n = (if n < 10 then [digit_char n] else str_nat (n div 10) @ [digit_char (n mod 10)])"

declare str_nat.simps [simp del]

definition str_int :: "int \<Rightarrow> string" where
  \<comment> \<open>\<^verbatim>\<open>str(i)\<close> of a Python int: decimal digits, a minus sign before a negative number\<close>
  "str_int i = (if i < 0 then CHR ''-'' # str_nat (nat (- i)) else str_nat (nat i))"

definition truthy :: "int option \<Rightarrow> bool" where
  \<comment> \<open>\<^verbatim>\<open>if x:\<close> on an optional integer: \<^verbatim>\<open>None\<close> and \<^verbatim>\<open>0\<close> are false\<close>
  "truthy x = (case x of None \<Rightarrow> False | Some n \<Rightarrow> n \<noteq> 0)"

section \<open>The format settings\<close>

record format_settings =
  codec :: "string list"
  format_args :: "string list"

definition bitrates :: "(int \<times> string) list" where
  "bitrates =
     [(0, ''384k''), (1, ''320k''), (2, ''256k''), (3, ''224k''), (4, ''192k''),
      (5, ''160k''), (6, ''128k''), (7, ''112k''), (8, ''96k''), (9, ''64k'')]"

definition dict_get :: "('k \<times> 'v) list \<Rightarrow> 'k \<Rightarrow> 'v \<Rightarrow> 'v" where
  \<comment> \<open>\<^verbatim>\<open>d.get(key, default)\<close> on a dict literal with distinct keys\<close>
  "dict_get d k dflt = (case map_of d k of None \<Rightarrow> dflt | Some v \<Rightarrow> v)"

definition get_format_settings :: "string \<Rightarrow> int option \<Rightarrow> format_settings" where
  "get_format_settings output_format compression_level =
     (let output_format = lower output_format in
      if output_format = ''flac'' then
        \<lparr>codec = [''-c:a'', ''flac''],
         format_args = (case compression_level of
                          None \<Rightarrow> []
                        | Some l \<Rightarrow> [''-compression_level'', str_int l])\<rparr>
      else if output_format = ''mp3'' then
        \<lparr>codec = [''-c:a'', ''libmp3lame''],
         format_args = (case compression_level of
                          None \<Rightarrow> []
                        | Some l \<Rightarrow> (let quality = max 0 (min 9 l) in [''-q:a'', str_int quality]))\<rparr>
      else if output_format = ''m4a'' then
        \<lparr>codec = [''-c:a'', ''aac''],
         format_args = (case compression_level of
                          None \<Rightarrow> []
                        | Some l \<Rightarrow> (let bitrate = dict_get bitrates l ''128k'' in [''-b:a'', bitrate]))\<rparr>
      else if output_format = ''wav'' then
        \<lparr>codec = [''-c:a'', ''pcm_s16le''], format_args = []\<rparr>
      else if output_format = ''ogg'' then
        \<lparr>codec = [''-c:a'', ''libvorbis''],
         format_args = (case compression_level of
                          None \<Rightarrow> []
                        | Some l \<Rightarrow> (let quality = max 0 (min 9 l) in [''-q:a'', str_int quality]))\<rparr>
      else
        \<lparr>codec = [''-c:a'', ''copy''], format_args = []\<rparr>)"

section \<open>Paths\<close>

text \<open>
  \<^verbatim>\<open>os.path.splitext\<close>, \<^verbatim>\<open>os.path.basename\<close> and \<^verbatim>\<open>os.path.join\<close> belong to Python's library,
  not to the repository. They are modelled after the library's POSIX implementation
  (\<^verbatim>\<open>posixpath\<close>, \<^verbatim>\<open>genericpath._splitext\<close>), with the separator \<^verbatim>\<open>/\<close> and the extension
  separator \<^verbatim>\<open>.\<close>; indices are integers and \<open>-1\<close> means "not found", as in Python.
\<close>

fun rfind :: "string \<Rightarrow> char \<Rightarrow> int" where
  \<comment> \<open>\<^verbatim>\<open>p.rfind(c)\<close>: the highest index of \<open>c\<close> in \<open>p\<close>, or \<open>-1\<close>\<close>
  "rfind [] c = - 1"
| "rfind (x # xs) c =
     (let r = rfind xs c in if 0 \<le> r then r + 1 else if x = c then 0 else - 1)"

function leading_dots :: "string \<Rightarrow> int \<Rightarrow> int \<Rightarrow> bool" where
  \<comment> \<open>the \<^verbatim>\<open>while\<close> loop of \<^verbatim>\<open>_splitext\<close>: False as soon as a character before the last dot
      is not a dot, True when the loop runs out\<close>
  "leading_dots p filenameIndex dotIndex =
     (if filenameIndex < dotIndex then
        (if take 1 (drop (nat filenameIndex) p) \<noteq> ''.'' then False
         else leading_dots p (filenameIndex + 1) dotIndex)
      else True)"
  by pat_completeness auto
termination
  by (relation "measure (\<lambda>(p, filenameIndex, dotIndex). nat (dotIndex - filenameIndex))") auto

declare leading_dots.simps [simp del]

definition splitext :: "string \<Rightarrow> string \<times> string" where
  "splitext p =
     (let sepIndex = rfind p CHR ''/'';
          dotIndex = rfind p CHR ''.''
      in if dotIndex > sepIndex \<and> \<not> leading_dots p (sepIndex + 1) dotIndex
         then (take (nat dotIndex) p, drop (nat dotIndex) p)
         else (p, []))"

definition basename :: "string \<Rightarrow> string" where
  "basename p = (let i = rfind p CHR ''/'' + 1 in drop (nat i) p)"

definition join :: "string \<Rightarrow> string \<Rightarrow> string" where
  "join a b =
     (if take 1 b = ''/'' then b
      else if a = [] \<or> endswith a ''/'' then a @ b
      else a @ ''/'' @ b)"

section \<open>The operating system and the external tool\<close>

text \<open>
  What the converter does to the world goes through five library calls. They are the
  fields of an \<open>os\<close>, over any type \<open>'fs\<close> of file-system states: the tool that
  \<^verbatim>\<open>subprocess.run\<close> starts may change the files in any way. Exceptions the converter
  does not catch are values of \<open>py_error\<close> and end the call that meets them.
\<close>

datatype py_error = OSError | UnicodeDecodeError | ValueError

datatype run_outcome =
    Completed
  | CalledProcessError "string option"
  | Raised py_error

text \<open>
  \<open>Completed\<close> is exit status zero. \<open>CalledProcessError err\<close> is a nonzero exit status
  (\<^verbatim>\<open>check=True\<close>), \<open>err\<close> being \<^verbatim>\<open>e.stderr.decode()\<close>, or \<open>None\<close> when the bytes do not
  decode. \<open>Raised\<close> is \<^verbatim>\<open>subprocess.run\<close> failing to start the tool.
\<close>

record 'fs os =
  os_path_exists :: "'fs \<Rightarrow> string \<Rightarrow> bool"
  os_path_isdir :: "'fs \<Rightarrow> string \<Rightarrow> bool"
  os_makedirs :: "string \<Rightarrow> 'fs \<Rightarrow> py_error option \<times> 'fs"
  path_glob :: "'fs \<Rightarrow> string \<Rightarrow> string \<Rightarrow> py_error + string list"
  subprocess_run :: "string list \<Rightarrow> 'fs \<Rightarrow> run_outcome \<times> 'fs"

datatype event = Print string | Run "string list"

record 'fs world =
  fs :: 'fs
  trace :: "event list"

definition emit :: "event \<Rightarrow> 'fs world \<Rightarrow> 'fs world" where
  "emit e w = w\<lparr>trace := trace w @ [e]\<rparr>"

fun run_argv :: "event \<Rightarrow> string list option" where
  "run_argv (Run argv) = Some argv"
| "run_argv (Print s) = None"

definition invocations :: "'fs world \<Rightarrow> string list list" where
  \<comment> \<open>the argument vectors the external tool was started with, oldest first\<close>
  "invocations w = List.map_filter run_argv (trace w)"

section \<open>The single-file converter\<close>

definition format_extensions :: "(string \<times> string) list" where
  "format_extensions =
     [(''flac'', ''.flac''), (''mp3'', ''.mp3''), (''m4a'', ''.m4a''), (''wav'', ''.wav''),
      (''ogg'', ''.ogg''), (''aac'', ''.aac''), (''wma'', ''.wma''), (''alac'', ''.m4a'')]"

definition output_extension :: "string \<Rightarrow> string" where
  \<comment> \<open>\<^verbatim>\<open>format_extensions.get(output_format.lower(), f'.{output_format}')\<close>\<close>
  "output_extension output_format =
     dict_get format_extensions (lower output_format) (''.'' @ output_format)"

text \<open>
  Lines 101 to 156 of \<^verbatim>\<open>_single_convert\<close> have no effect: they compute the output path
  and the argument vector \<^verbatim>\<open>cmd\<close>, extended step by step as in the source.
\<close>

definition build_command ::
  "string \<Rightarrow> string \<Rightarrow> string option \<Rightarrow> int option \<Rightarrow> int option \<Rightarrow> int option \<Rightarrow>
   int option \<Rightarrow> string list option \<Rightarrow> string list \<times> string" where
  "build_command input_file output_format output_file compression_level sample_rate
       channels bit_depth extra_args =
     (let output_file = (case output_file of
                           None \<Rightarrow> fst (splitext input_file) @ output_extension output_format
                         | Some f \<Rightarrow> f);
          cmd = [''ffmpeg'', ''-i'', input_file];
          format_settings = get_format_settings output_format compression_level;
          cmd = cmd @ codec format_settings;
          cmd = cmd @ format_args format_settings;
          cmd = (case sample_rate of
                   None \<Rightarrow> cmd
                 | Some r \<Rightarrow> if r \<noteq> 0 then cmd @ [''-ar'', str_int r] else cmd);
          cmd = (case channels of
                   None \<Rightarrow> cmd
                 | Some c \<Rightarrow> if c \<noteq> 0 then cmd @ [''-ac'', str_int c] else cmd);
          cmd = (if truthy bit_depth \<and> lower output_format \<in> set [''flac'', ''wav''] then
                   (if lower output_format = ''flac'' then
                      (if bit_depth = Some 16 then cmd @ [''-sample_fmt'', ''s16'']
                       else if bit_depth = Some 24 then cmd @ [''-sample_fmt'', ''s32'']
                       else if bit_depth = Some 32 then cmd @ [''-sample_fmt'', ''s32'']
                       else cmd)
                    else if lower output_format = ''wav'' then
                      (if bit_depth = Some 16 then cmd @ [''-c:a'', ''pcm_s16le'']
                       else if bit_depth = Some 24 then cmd @ [''-c:a'', ''pcm_s24le'']
                       else if bit_depth = Some 32 then cmd @ [''-c:a'', ''pcm_s32le'']
                       else cmd)
                    else cmd)
                 else cmd);
          cmd = (case extra_args of
                   None \<Rightarrow> cmd
                 | Some extra \<Rightarrow> if extra \<noteq> [] then cmd @ extra else cmd);
          cmd = cmd @ [output_file]
      in (cmd, output_file))"

definition single_convert ::
  "'fs os \<Rightarrow> string \<Rightarrow> string \<Rightarrow> string option \<Rightarrow> int option \<Rightarrow> int option \<Rightarrow> int option \<Rightarrow>
   int option \<Rightarrow> string list option \<Rightarrow> 'fs world \<Rightarrow> (py_error + string option) \<times> 'fs world" where
  "single_convert os input_file output_format output_file compression_level sample_rate
       channels bit_depth extra_args w =
     (if \<not> os_path_exists os (fs w) input_file then
        (Inr None, emit (Print (''Input file not found: '' @ input_file)) w)
      else
        let (cmd, output_file) =
              build_command input_file output_format output_file compression_level
                sample_rate channels bit_depth extra_args;
            (outcome, fs') = subprocess_run os cmd (fs w);
            w = emit (Run cmd) (w\<lparr>fs := fs'\<rparr>)
        in case outcome of
             Completed \<Rightarrow>
               (Inr (Some output_file),
                emit (Print (''Successfully converted '' @ input_file @ '' to '' @ output_file)) w)
           | CalledProcessError err \<Rightarrow>
               (case err of
                  Some text \<Rightarrow> (Inr None, emit (Print (''Error converting file: '' @ text)) w)
                | None \<Rightarrow> (Inl UnicodeDecodeError, w))
           | Raised e \<Rightarrow> (Inl e, w))"

section \<open>The batch converter\<close>

text \<open>
  The \<^verbatim>\<open>for\<close> loop of \<^verbatim>\<open>_batch_convert\<close>: \<open>successful_conversions\<close> is the list built so
  far, and an exception of the single-file converter ends the loop.
\<close>

fun batch_loop ::
  "'fs os \<Rightarrow> string \<Rightarrow> string option \<Rightarrow> int option \<Rightarrow> int option \<Rightarrow> int option \<Rightarrow>
   int option \<Rightarrow> string list option \<Rightarrow> string list \<Rightarrow> string list \<Rightarrow> 'fs world \<Rightarrow>
   (py_error + string list) \<times> 'fs world" where
  "batch_loop os output_format output_dir compression_level sample_rate channels bit_depth
       extra_args [] successful_conversions w = (Inr successful_conversions, w)"
| "batch_loop os output_format output_dir compression_level sample_rate channels bit_depth
       extra_args (audio_path # audio_files) successful_conversions w =
     (if endswith (lower audio_path) (output_extension output_format) then
        batch_loop os output_format output_dir compression_level sample_rate channels
          bit_depth extra_args audio_files successful_conversions w
      else
        let output_path =
              (case output_dir of
                 Some dir \<Rightarrow>
                   (let filename = basename audio_path;
                        base_name = fst (splitext filename)
                    in join dir (base_name @ output_extension output_format))
               | None \<Rightarrow> fst (splitext audio_path) @ output_extension output_format);
            (result, w) =
              single_convert os audio_path output_format (Some output_path) compression_level
                sample_rate channels bit_depth extra_args w
        in case result of
             Inl e \<Rightarrow> (Inl e, w)
           | Inr None \<Rightarrow>
               batch_loop os output_format output_dir compression_level sample_rate channels
                 bit_depth extra_args audio_files successful_conversions w
           | Inr (Some r) \<Rightarrow>
               batch_loop os output_format output_dir compression_level sample_rate channels
                 bit_depth extra_args audio_files
                 (if r \<noteq> [] then successful_conversions @ [r] else successful_conversions) w)"

definition batch_convert ::
  "'fs os \<Rightarrow> string \<Rightarrow> string \<Rightarrow> string option \<Rightarrow> int option \<Rightarrow> int option \<Rightarrow> int option \<Rightarrow>
   int option \<Rightarrow> string list option \<Rightarrow> string \<Rightarrow> 'fs world \<Rightarrow>
   (py_error + string list) \<times> 'fs world" where
  "batch_convert os input_dir output_format output_dir compression_level sample_rate channels
       bit_depth extra_args file_pattern w =
     (let (made, w) =
            (case output_dir of
               None \<Rightarrow> (None, w)
             | Some dir \<Rightarrow> (let (e, fs') = os_makedirs os dir (fs w) in (e, w\<lparr>fs := fs'\<rparr>)))
      in case made of
           Some e \<Rightarrow> (Inl e, w)
         | None \<Rightarrow>
             (case path_glob os (fs w) input_dir file_pattern of
                Inl e \<Rightarrow> (Inl e, w)
              | Inr audio_files \<Rightarrow>
                  if audio_files = [] then
                    (Inr [],
                     emit (Print (''No files matching pattern '' @ [CHR 0x27] @ file_pattern
                                  @ [CHR 0x27] @ '' found in '' @ input_dir)) w)
                  else
                    (case batch_loop os output_format output_dir compression_level sample_rate
                            channels bit_depth extra_args audio_files [] w of
                       (Inl e, w) \<Rightarrow> (Inl e, w)
                     | (Inr successful_conversions, w) \<Rightarrow>
                         (Inr successful_conversions,
                          emit (Print (''Converted ''
                                       @ str_int (int (length successful_conversions))
                                       @ '' files to '' @ output_format @ '' format'')) w))))"

section \<open>The entry point\<close>

text \<open>
  \<^verbatim>\<open>convert_audio\<close> returns a path or \<^verbatim>\<open>None\<close> for a file and a list of paths for a
  directory; the two kinds of result are the two sides of a sum.
\<close>

definition convert_audio ::
  "'fs os \<Rightarrow> string \<Rightarrow> string \<Rightarrow> string option \<Rightarrow> int option \<Rightarrow> int option \<Rightarrow> int option \<Rightarrow>
   int option \<Rightarrow> string list option \<Rightarrow> string \<Rightarrow> 'fs world \<Rightarrow>
   (py_error + (string option + string list)) \<times> 'fs world" where
  "convert_audio os input_path output_format output_path compression_level sample_rate channels
       bit_depth extra_args file_pattern w =
     (if os_path_isdir os (fs w) input_path then
        (case batch_convert os input_path output_format output_path compression_level
                sample_rate channels bit_depth extra_args file_pattern w of
           (Inl e, w) \<Rightarrow> (Inl e, w)
         | (Inr paths, w) \<Rightarrow> (Inr (Inr paths), w))
      else
        (case single_convert os input_path output_format output_path compression_level
                sample_rate channels bit_depth extra_args w of
           (Inl e, w) \<Rightarrow> (Inl e, w)
         | (Inr path, w) \<Rightarrow> (Inr (Inl path), w)))"

section \<open>The argument vector as the specification lays it out\<close>

text \<open>
  The specification describes the argument vector as a sequence of segments, some of
  them optional. Each segment is written down here on its own, to be compared with what
  \<open>single_convert\<close> hands to the tool. \<open>invoked_by w w'\<close> are the argument vectors the
  tool was started with between the worlds \<open>w\<close> and \<open>w'\<close>.
\<close>

definition invoked_by :: "'fs world \<Rightarrow> 'fs world \<Rightarrow> string list list" where
  "invoked_by w w' = drop (length (invocations w)) (invocations w')"

definition sample_rate_args :: "int option \<Rightarrow> string list" where
  "sample_rate_args sample_rate =
     (case sample_rate of None \<Rightarrow> [] | Some r \<Rightarrow> if r = 0 then [] else [''-ar'', str_int r])"

definition channel_args :: "int option \<Rightarrow> string list" where
  "channel_args channels =
     (case channels of None \<Rightarrow> [] | Some c \<Rightarrow> if c = 0 then [] else [''-ac'', str_int c])"

definition bit_depth_args :: "string \<Rightarrow> int option \<Rightarrow> string list" where
  "bit_depth_args output_format bit_depth =
     (if lower output_format = ''flac'' then
        (if bit_depth = Some 16 then [''-sample_fmt'', ''s16'']
         else if bit_depth = Some 24 \<or> bit_depth = Some 32 then [''-sample_fmt'', ''s32'']
         else [])
      else if lower output_format = ''wav'' then
        (if bit_depth = Some 16 then [''-c:a'', ''pcm_s16le'']
         else if bit_depth = Some 24 then [''-c:a'', ''pcm_s24le'']
         else if bit_depth = Some 32 then [''-c:a'', ''pcm_s32le'']
         else [])
      else [])"

definition extra_list :: "string list option \<Rightarrow> string list" where
  "extra_list extra_args = (case extra_args of None \<Rightarrow> [] | Some extra \<Rightarrow> extra)"

definition resolved_output :: "string \<Rightarrow> string \<Rightarrow> string option \<Rightarrow> string" where
  "resolved_output input_file output_format output_file =
     (case output_file of
        None \<Rightarrow> fst (splitext input_file) @ output_extension output_format
      | Some f \<Rightarrow> f)"

definition argv_layout ::
  "string \<Rightarrow> string \<Rightarrow> string option \<Rightarrow> int option \<Rightarrow> int option \<Rightarrow> int option \<Rightarrow>
   int option \<Rightarrow> string list option \<Rightarrow> string list" where
  "argv_layout input_file output_format output_file compression_level sample_rate channels
       bit_depth extra_args =
     [''ffmpeg'', ''-i'', input_file]
     @ codec (get_format_settings output_format compression_level)
     @ format_args (get_format_settings output_format compression_level)
     @ sample_rate_args sample_rate
     @ channel_args channels
     @ bit_depth_args output_format bit_depth
     @ extra_list extra_args
     @ [resolved_output input_file output_format output_file]"

section \<open>A file system with one file\<close>

text \<open>
  The concrete inputs below run the converter where exactly one path exists, every glob
  matches that path, and the tool ends with a given outcome without touching the files.
\<close>

definition one_file_os :: "string \<Rightarrow> run_outcome \<Rightarrow> unit os" where
  "one_file_os path outcome =
     \<lparr>os_path_exists = (\<lambda>f p. p = path),
      os_path_isdir = (\<lambda>f p. False),
      os_makedirs = (\<lambda>d f. (None, f)),
      path_glob = (\<lambda>f d pat. Inr [path]),
      subprocess_run = (\<lambda>argv f. (outcome, f))\<rparr>"

definition start :: "unit world" where
  "start = \<lparr>fs = (), trace = []\<rparr>"

section \<open>Decimal numerals are read back\<close>

lemma digit_cases:
  assumes "d < 10"
  shows "d \<in> {0, 1, 2, 3, 4, 5, 6, 7, 8, 9 :: nat}"
  using assms by auto

lemma digit_char_inj: "a < 10 \<Longrightarrow> b < 10 \<Longrightarrow> digit_char a = digit_char b \<Longrightarrow> a = b"
  using digit_cases [of a] digit_cases [of b]
  by (auto simp add: digit_char_def)

lemma digit_char_not_minus: "d < 10 \<Longrightarrow> digit_char d \<noteq> CHR ''-''"
  using digit_cases [of d] by (auto simp add: digit_char_def)

lemma str_nat_not_Nil: "str_nat n \<noteq> []" "[] \<noteq> str_nat n"
  by (subst str_nat.simps, simp)+

lemma str_nat_small: "n < 10 \<Longrightarrow> str_nat n = [digit_char n]"
  by (subst str_nat.simps) simp

lemma str_nat_large: "\<not> n < 10 \<Longrightarrow> str_nat n = str_nat (n div 10) @ [digit_char (n mod 10)]"
  by (subst str_nat.simps) simp

lemma str_nat_hd_not_minus: "hd (str_nat n) \<noteq> CHR ''-''"
proof (induction n rule: str_nat.induct)
  case (1 n)
  show ?case
  proof (cases "n < 10")
    case True
    then show ?thesis by (simp add: str_nat_small digit_char_not_minus)
  next
    case False
    with 1 show ?thesis by (simp add: str_nat_large str_nat_not_Nil)
  qed
qed

lemma str_nat_inj: "str_nat n = str_nat m \<Longrightarrow> n = m"
proof (induction n arbitrary: m rule: str_nat.induct)
  case (1 n)
  show ?case
  proof (cases "n < 10")
    case n: True
    show ?thesis
    proof (cases "m < 10")
      case True
      with n "1.prems" show ?thesis by (simp add: str_nat_small digit_char_inj)
    next
      case False
      with n "1.prems" show ?thesis by (simp add: str_nat_small str_nat_large str_nat_not_Nil)
    qed
  next
    case n: False
    show ?thesis
    proof (cases "m < 10")
      case True
      with n "1.prems" show ?thesis by (simp add: str_nat_small str_nat_large str_nat_not_Nil)
    next
      case False
      with n "1.prems" have e: "str_nat (n div 10) = str_nat (m div 10)"
        and d: "digit_char (n mod 10) = digit_char (m mod 10)"
        by (simp_all add: str_nat_large)
      from "1.IH" [OF n e] have "n div 10 = m div 10" .
      moreover from d have "n mod 10 = m mod 10" by (simp add: digit_char_inj)
      ultimately show ?thesis by (metis div_mult_mod_eq)
    qed
  qed
qed

lemma str_int_inj: "str_int a = str_int b \<Longrightarrow> a = b"
  using str_nat_hd_not_minus [of "nat a"] str_nat_hd_not_minus [of "nat b"]
    str_nat_not_Nil(1) [of "nat a"] str_nat_not_Nil(1) [of "nat b"]
  by (auto simp add: str_int_def dest!: str_nat_inj split: if_splits)
    (metis list.sel(1))+

section \<open>What the single-file converter invokes\<close>

lemma build_command_layout:
  "build_command input_file output_format output_file compression_level sample_rate channels
     bit_depth extra_args =
   (argv_layout input_file output_format output_file compression_level sample_rate channels
      bit_depth extra_args,
    resolved_output input_file output_format output_file)"
  by (simp add: build_command_def argv_layout_def resolved_output_def sample_rate_args_def
      channel_args_def bit_depth_args_def extra_list_def truthy_def Let_def
      split: option.splits)

lemma invocations_emit [simp]:
  "invocations (emit (Run argv) w) = invocations w @ [argv]"
  "invocations (emit (Print s) w) = invocations w"
  "invocations (w\<lparr>fs := f\<rparr>) = invocations w"
  by (simp_all add: invocations_def emit_def List.map_filter_def)

lemma single_convert_invocations:
  assumes "os_path_exists os (fs w) input_file"
  shows "invocations (snd (single_convert os input_file output_format output_file
           compression_level sample_rate channels bit_depth extra_args w)) =
         invocations w @ [fst (build_command input_file output_format output_file
           compression_level sample_rate channels bit_depth extra_args)]"
  using assms
  by (simp add: single_convert_def Let_def split: prod.splits run_outcome.splits option.splits)

lemma single_convert_missing:
  assumes "\<not> os_path_exists os (fs w) input_file"
  shows "single_convert os input_file output_format output_file compression_level
           sample_rate channels bit_depth extra_args w =
         (Inr None, w\<lparr>trace := trace w @ [Print (''Input file not found: '' @ input_file)]\<rparr>)"
  using assms by (simp add: single_convert_def emit_def)

lemma splitext_append: "fst (splitext p) @ snd (splitext p) = p"
  by (simp add: splitext_def Let_def)

lemma result_completed:
  assumes "os_path_exists os (fs w) input_file"
    and "fst (subprocess_run os (fst (build_command input_file output_format output_file
           compression_level sample_rate channels bit_depth extra_args)) (fs w)) = Completed"
  shows "fst (single_convert os input_file output_format output_file compression_level
           sample_rate channels bit_depth extra_args w) =
         Inr (Some (snd (build_command input_file output_format output_file
           compression_level sample_rate channels bit_depth extra_args)))"
  using assms
  by (auto simp add: single_convert_def Let_def split: prod.splits run_outcome.splits option.splits)

lemma song_wav: "splitext ''song.wav'' = (''song'', ''.wav'')"
  by (simp add: splitext_def leading_dots.simps)

lemma flac_ext: "output_extension ''flac'' = ''.flac''"
  by (simp add: output_extension_def dict_get_def format_extensions_def lower_def lower_char_def)

section \<open>The batch loop passes over files of the target extension\<close>

lemma batch_loop_skips:
  "batch_loop os output_format output_dir compression_level sample_rate channels bit_depth
     extra_args audio_files successful_conversions w =
   batch_loop os output_format output_dir compression_level sample_rate channels bit_depth
     extra_args
     (filter (\<lambda>audio_path. \<not> endswith (lower audio_path) (output_extension output_format))
        audio_files)
     successful_conversions w"
proof (induction audio_files arbitrary: successful_conversions w)
  case Nil
  show ?case by simp
next
  case (Cons audio_path audio_files)
  show ?case
  proof (cases "endswith (lower audio_path) (output_extension output_format)")
    case True
    then show ?thesis by (simp add: Cons.IH [symmetric])
  next
    case False
    then show ?thesis
      by (simp add: Cons.IH [symmetric] cong: prod.case_cong sum.case_cong option.case_cong)
  qed
qed

section \<open>The single-file converter: claims\<close>

text \<open>
  Claim C1. When the input exists and no output path is given, the single-file converter
  starts the tool once, and the last argument, the output path, is the input path with
  its extension replaced by the extension of the format: the input path is a root followed
  by its own extension (both as \<^verbatim>\<open>os.path.splitext\<close> gives them, the extension possibly
  empty), and the output path is that root followed by \<^verbatim>\<open>.flac\<close>, \<^verbatim>\<open>.mp3\<close>, \<^verbatim>\<open>.m4a\<close>, \<^verbatim>\<open>.wav\<close>,
  \<^verbatim>\<open>.ogg\<close>, \<^verbatim>\<open>.aac\<close>, \<^verbatim>\<open>.wma\<close> or \<^verbatim>\<open>.m4a\<close> for the formats flac, mp3, m4a, wav, ogg, aac, wma
  and alac (matched without regard to case), and by a dot and the format as given for any
  other format. When the tool exits with status zero, that path is also what the
  converter returns. So \<^verbatim>\<open>song.wav\<close> with the format flac yields \<^verbatim>\<open>song.flac\<close>.
\<close>

theorem default_output_path:
  assumes "os_path_exists os (fs w) input_file"
  shows "(\<exists>argv. invoked_by w (snd (single_convert os input_file output_format None
             compression_level sample_rate channels bit_depth extra_args w)) = [argv]
           \<and> last argv = fst (splitext input_file) @ output_extension output_format
           \<and> (fst (subprocess_run os argv (fs w)) = Completed \<longrightarrow>
                fst (single_convert os input_file output_format None compression_level
                  sample_rate channels bit_depth extra_args w) =
                Inr (Some (fst (splitext input_file) @ output_extension output_format))))
         \<and> fst (splitext input_file) @ snd (splitext input_file) = input_file
         \<and> output_extension output_format =
            (if lower output_format = ''flac'' then ''.flac''
             else if lower output_format = ''mp3'' then ''.mp3''
             else if lower output_format = ''m4a'' then ''.m4a''
             else if lower output_format = ''wav'' then ''.wav''
             else if lower output_format = ''ogg'' then ''.ogg''
             else if lower output_format = ''aac'' then ''.aac''
             else if lower output_format = ''wma'' then ''.wma''
             else if lower output_format = ''alac'' then ''.m4a''
             else ''.'' @ output_format)"
proof -
  let ?argv = "argv_layout input_file output_format None compression_level sample_rate
      channels bit_depth extra_args"
  let ?out = "fst (splitext input_file) @ output_extension output_format"
  have b: "build_command input_file output_format None compression_level sample_rate
      channels bit_depth extra_args = (?argv, ?out)"
    by (simp add: build_command_layout resolved_output_def)
  have "invoked_by w (snd (single_convert os input_file output_format None
             compression_level sample_rate channels bit_depth extra_args w)) = [?argv]"
    using assms by (simp add: invoked_by_def single_convert_invocations b)
  moreover have "last ?argv = ?out"
    by (simp add: argv_layout_def resolved_output_def)
  moreover have "fst (subprocess_run os ?argv (fs w)) = Completed \<longrightarrow>
      fst (single_convert os input_file output_format None compression_level
        sample_rate channels bit_depth extra_args w) = Inr (Some ?out)"
    using result_completed [OF assms, of output_format None compression_level sample_rate
        channels bit_depth extra_args]
    by (simp add: b)
  moreover have "output_extension output_format =
            (if lower output_format = ''flac'' then ''.flac''
             else if lower output_format = ''mp3'' then ''.mp3''
             else if lower output_format = ''m4a'' then ''.m4a''
             else if lower output_format = ''wav'' then ''.wav''
             else if lower output_format = ''ogg'' then ''.ogg''
             else if lower output_format = ''aac'' then ''.aac''
             else if lower output_format = ''wma'' then ''.wma''
             else if lower output_format = ''alac'' then ''.m4a''
             else ''.'' @ output_format)"
    by (simp add: output_extension_def dict_get_def format_extensions_def)
  ultimately show ?thesis
    using splitext_append [of input_file] by blast
qed

theorem default_output_path_witness:
  "\<exists>argv. invoked_by start (snd (single_convert (one_file_os ''song.wav'' Completed) ''song.wav''
       ''flac'' None (Some 5) None None None None start)) = [argv]
     \<and> last argv = ''song.flac''
     \<and> fst (single_convert (one_file_os ''song.wav'' Completed) ''song.wav''
          ''flac'' None (Some 5) None None None None start) = Inr (Some ''song.flac'')"
proof -
  have "os_path_exists (one_file_os ''song.wav'' Completed) (fs start) ''song.wav''"
    by (simp add: one_file_os_def)
  from default_output_path [OF this, of "''flac''" "Some 5" None None None None]
  show ?thesis by (simp add: song_wav flac_ext one_file_os_def)
qed

text \<open>
  Claim C2. When the input exists, the single-file converter starts the tool once, with
  the argument vector \<^verbatim>\<open>ffmpeg\<close>, \<^verbatim>\<open>-i\<close>, the input path, the codec arguments, the format
  arguments, the sample-rate arguments (if a sample rate is given), the channel arguments
  (if channels are given), the bit-depth arguments (if they apply), the extra arguments as
  given and in their order, and the output path last.
\<close>

theorem argument_vector_order:
  assumes "os_path_exists os (fs w) input_file"
  shows "invoked_by w (snd (single_convert os input_file output_format output_file
           compression_level sample_rate channels bit_depth extra_args w)) =
         [[''ffmpeg'', ''-i'', input_file]
          @ codec (get_format_settings output_format compression_level)
          @ format_args (get_format_settings output_format compression_level)
          @ sample_rate_args sample_rate
          @ channel_args channels
          @ bit_depth_args output_format bit_depth
          @ extra_list extra_args
          @ [resolved_output input_file output_format output_file]]"
  using assms
  by (simp add: invoked_by_def single_convert_invocations build_command_layout argv_layout_def)

theorem argument_vector_order_witness:
  "invoked_by start (snd (single_convert (one_file_os ''song.wav'' Completed) ''song.wav''
       ''flac'' (Some ''out.flac'') (Some 5) (Some 44100) (Some 2) (Some 24)
       (Some [''-y'', ''-vn'']) start)) =
   [[''ffmpeg'', ''-i'', ''song.wav'', ''-c:a'', ''flac'', ''-compression_level'', ''5'',
     ''-ar'', ''44100'', ''-ac'', ''2'', ''-sample_fmt'', ''s32'', ''-y'', ''-vn'',
     ''out.flac'']]"
proof -
  have "os_path_exists (one_file_os ''song.wav'' Completed) (fs start) ''song.wav''"
    by (simp add: one_file_os_def)
  from argument_vector_order [OF this, of "''flac''" "Some ''out.flac''" "Some 5" "Some 44100"
      "Some 2" "Some 24" "Some [''-y'', ''-vn'']"]
  show ?thesis
    by (simp add: get_format_settings_def sample_rate_args_def channel_args_def
        bit_depth_args_def extra_list_def resolved_output_def lower_def lower_char_def
        str_int_def str_nat.simps digit_char_def)
qed

text \<open>
  Claim C4. When the input path does not exist, the single-file converter prints one
  message, \<^verbatim>\<open>Input file not found:\<close> and the path, returns \<^verbatim>\<open>None\<close>, starts no tool and
  leaves the files as they are.
\<close>

theorem missing_input_fails_fast:
  assumes "\<not> os_path_exists os (fs w) input_file"
  shows "single_convert os input_file output_format output_file compression_level
           sample_rate channels bit_depth extra_args w =
         (Inr None, w\<lparr>trace := trace w @ [Print (''Input file not found: '' @ input_file)]\<rparr>)
         \<and> invoked_by w (snd (single_convert os input_file output_format output_file
              compression_level sample_rate channels bit_depth extra_args w)) = []"
  using assms
  by (simp add: single_convert_missing invoked_by_def invocations_def List.map_filter_def)

theorem missing_input_fails_fast_witness:
  "single_convert (one_file_os ''song.wav'' Completed) ''gone.wav'' ''flac'' None (Some 5)
     None None None None start =
   (Inr None, \<lparr>fs = (), trace = [Print ''Input file not found: gone.wav'']\<rparr>)"
proof -
  have "\<not> os_path_exists (one_file_os ''song.wav'' Completed) (fs start) ''gone.wav''"
    by (simp add: one_file_os_def)
  from missing_input_fails_fast [OF this, of "''flac''" None "Some 5" None None None None]
  show ?thesis by (simp add: start_def)
qed

section \<open>The batch converter: claims\<close>

text \<open>
  Claim C3. In batch mode a file that already ends with the extension of the target
  format, compared without regard to case, is to be skipped. The loop lowers the path but
  not the extension, and for a format outside the table the extension is a dot and the
  format as given. So with the format \<^verbatim>\<open>OPUS\<close> the file \<^verbatim>\<open>d/x.OPUS\<close>, which ends with the
  extension \<^verbatim>\<open>.OPUS\<close> letter for letter, is not skipped: the tool is started with that file
  as its input and as its output, and the path is reported as converted.
\<close>

theorem upper_case_format_reconverted:
  "endswith ''d/x.OPUS'' (output_extension ''OPUS'')
   \<and> batch_convert (one_file_os ''d/x.OPUS'' Completed) ''d'' ''OPUS'' None (Some 5) None None
       None None ''*.*'' start =
     (Inr [''d/x.OPUS''],
      \<lparr>fs = (),
       trace = [Run [''ffmpeg'', ''-i'', ''d/x.OPUS'', ''-c:a'', ''copy'', ''d/x.OPUS''],
                Print ''Successfully converted d/x.OPUS to d/x.OPUS'',
                Print ''Converted 1 files to OPUS format'']\<rparr>)"
proof -
  have l: "lower ''OPUS'' = ''opus''" "lower ''d/x.OPUS'' = ''d/x.opus''"
    by (simp_all add: lower_def lower_char_def)
  have e: "output_extension ''OPUS'' = ''.OPUS''"
    by (simp add: output_extension_def dict_get_def format_extensions_def l)
  have s: "splitext ''d/x.OPUS'' = (''d/x'', ''.OPUS'')"
    by (simp add: splitext_def leading_dots.simps)
  have c: "single_convert (one_file_os ''d/x.OPUS'' Completed) ''d/x.OPUS'' ''OPUS''
       (Some ''d/x.OPUS'') (Some 5) None None None None start =
     (Inr (Some ''d/x.OPUS''),
      \<lparr>fs = (),
       trace = [Run [''ffmpeg'', ''-i'', ''d/x.OPUS'', ''-c:a'', ''copy'', ''d/x.OPUS''],
                Print ''Successfully converted d/x.OPUS to d/x.OPUS'']\<rparr>)"
    by (simp add: single_convert_def build_command_layout argv_layout_def l
        get_format_settings_def sample_rate_args_def channel_args_def bit_depth_args_def
        extra_list_def resolved_output_def one_file_os_def start_def emit_def)
  have g: "path_glob (one_file_os ''d/x.OPUS'' Completed) f ''d'' ''*.*'' =
      Inr [''d/x.OPUS'']" for f
    by (simp add: one_file_os_def)
  have n: "str_int 1 = ''1''"
    by (simp add: str_int_def str_nat.simps digit_char_def)
  have b: "batch_loop (one_file_os ''d/x.OPUS'' Completed) ''OPUS'' None (Some 5) None None
       None None [''d/x.OPUS''] [] start =
     (Inr [''d/x.OPUS''],
      \<lparr>fs = (),
       trace = [Run [''ffmpeg'', ''-i'', ''d/x.OPUS'', ''-c:a'', ''copy'', ''d/x.OPUS''],
                Print ''Successfully converted d/x.OPUS to d/x.OPUS'']\<rparr>)"
    by (simp add: l e s c endswith_def)
  show ?thesis
    by (simp add: batch_convert_def g b n e endswith_def emit_def del: batch_loop.simps)
qed

section \<open>The format-settings resolver\<close>

text \<open>
  Claim C5. For the formats mp3 and ogg (matched without regard to case) and every
  compression level that is not \<^verbatim>\<open>None\<close>, the format arguments are \<^verbatim>\<open>-q:a\<close> followed by the
  level clamped to the interval from 0 to 9: a level below 0 gives 0, a level above 9
  gives 9 (so 15 is treated as 9), and a level within the interval is emitted unchanged.
\<close>

theorem mp3_ogg_quality_clamped:
  assumes "lower output_format = ''mp3'' \<or> lower output_format = ''ogg''"
  shows "format_args (get_format_settings output_format (Some l)) =
           [''-q:a'', str_int (if l < 0 then 0 else if 9 < l then 9 else l)]"
  using assms by (auto simp add: get_format_settings_def)

theorem mp3_ogg_quality_clamped_witness:
  "format_args (get_format_settings ''mp3'' (Some 15)) = [''-q:a'', ''9'']
   \<and> format_args (get_format_settings ''OGG'' (Some (- 3))) = [''-q:a'', ''0'']
   \<and> format_args (get_format_settings ''ogg'' (Some 4)) = [''-q:a'', ''4'']"
  using mp3_ogg_quality_clamped [of "''mp3''" 15] mp3_ogg_quality_clamped [of "''OGG''" "- 3"]
    mp3_ogg_quality_clamped [of "''ogg''" 4]
  by (simp add: lower_def lower_char_def str_int_def str_nat.simps digit_char_def)

text \<open>
  Claim C6. For the format m4a and every compression level that is not \<^verbatim>\<open>None\<close>, the format
  arguments are \<^verbatim>\<open>-b:a\<close> followed by the bitrate of the fixed table 0:384k, 1:320k, 2:256k,
  3:224k, 4:192k, 5:160k, 6:128k, 7:112k, 8:96k, 9:64k, and by 128k for every level that
  is not in the table (12, for one).
\<close>

theorem m4a_bitrate_table:
  assumes "lower output_format = ''m4a''"
  shows "format_args (get_format_settings output_format (Some l)) =
           [''-b:a'',
            if l = 0 then ''384k'' else if l = 1 then ''320k'' else if l = 2 then ''256k''
            else if l = 3 then ''224k'' else if l = 4 then ''192k'' else if l = 5 then ''160k''
            else if l = 6 then ''128k'' else if l = 7 then ''112k'' else if l = 8 then ''96k''
            else if l = 9 then ''64k'' else ''128k'']"
  using assms by (simp add: get_format_settings_def dict_get_def bitrates_def)

theorem m4a_bitrate_table_witness:
  "format_args (get_format_settings ''m4a'' (Some 12)) = [''-b:a'', ''128k'']
   \<and> format_args (get_format_settings ''M4A'' (Some 9)) = [''-b:a'', ''64k'']"
  using m4a_bitrate_table [of "''m4a''" 12] m4a_bitrate_table [of "''M4A''" 9]
  by (simp add: lower_def lower_char_def)

text \<open>
  Claim C7. For the format flac and every compression level that is not \<^verbatim>\<open>None\<close>, inside
  the range 0 to 12 or outside it, the format arguments are \<^verbatim>\<open>-compression_level\<close> followed
  by the decimal numeral of the level itself. Nothing is clamped: two levels give the
  same arguments only when they are the same level.
\<close>

theorem flac_level_not_clamped:
  assumes "lower output_format = ''flac''"
  shows "format_args (get_format_settings output_format (Some l)) =
           [''-compression_level'', str_int l]
         \<and> (format_args (get_format_settings output_format (Some l)) =
              format_args (get_format_settings output_format (Some l')) \<longleftrightarrow> l = l')"
  using assms by (auto simp add: get_format_settings_def dest: str_int_inj)

theorem flac_level_not_clamped_witness:
  "format_args (get_format_settings ''flac'' (Some 13)) = [''-compression_level'', ''13'']
   \<and> format_args (get_format_settings ''FLAC'' (Some (- 1))) = [''-compression_level'', ''-1'']"
  using flac_level_not_clamped [of "''flac''" 13] flac_level_not_clamped [of "''FLAC''" "- 1"]
  by (simp add: lower_def lower_char_def str_int_def str_nat.simps digit_char_def)

text \<open>
  Claim C8. For every format that, lowered, is none of flac, mp3, m4a, wav and ogg, the
  resolver returns the codec arguments \<^verbatim>\<open>-c:a copy\<close> and no format arguments, whatever the
  compression level. The resolver has no error result: it returns settings for every
  format and level.
\<close>

theorem unknown_format_copy:
  assumes "lower output_format \<notin> {''flac'', ''mp3'', ''m4a'', ''wav'', ''ogg''}"
  shows "get_format_settings output_format compression_level =
           \<lparr>codec = [''-c:a'', ''copy''], format_args = []\<rparr>"
  using assms by (simp add: get_format_settings_def)

theorem unknown_format_copy_witness:
  "get_format_settings ''Opus'' (Some 5) = \<lparr>codec = [''-c:a'', ''copy''], format_args = []\<rparr>
   \<and> get_format_settings ''aac'' None = \<lparr>codec = [''-c:a'', ''copy''], format_args = []\<rparr>"
  using unknown_format_copy [of "''Opus''" "Some 5"] unknown_format_copy [of "''aac''" None]
  by (simp add: lower_def lower_char_def)

section \<open>Bit depth, sample rate and channels: claims\<close>

text \<open>
  Claim C9. When the input exists and the format is flac, the tool is started with the
  same argument vector for the bit depths 24 and 32, holding \<^verbatim>\<open>-sample_fmt s32\<close> between
  the channel arguments and the extra arguments, and with \<^verbatim>\<open>-sample_fmt s16\<close> in that place
  for the bit depth 16. When the format is wav, the bit depths 16, 24 and 32 put
  \<^verbatim>\<open>-c:a pcm_s16le\<close>, \<^verbatim>\<open>-c:a pcm_s24le\<close> and \<^verbatim>\<open>-c:a pcm_s32le\<close> in that place.
\<close>

theorem bit_depth_override:
  assumes "os_path_exists os (fs w) input_file"
  shows "let before = [''ffmpeg'', ''-i'', input_file]
                 @ codec (get_format_settings output_format compression_level)
                 @ format_args (get_format_settings output_format compression_level)
                 @ sample_rate_args sample_rate @ channel_args channels;
             after = extra_list extra_args
                 @ [resolved_output input_file output_format output_file];
             invoked = (\<lambda>bit_depth. invoked_by w
                 (snd (single_convert os input_file output_format output_file
                    compression_level sample_rate channels bit_depth extra_args w)))
         in (lower output_format = ''flac'' \<longrightarrow>
               invoked (Some 24) = invoked (Some 32)
               \<and> invoked (Some 32) = [before @ [''-sample_fmt'', ''s32''] @ after]
               \<and> invoked (Some 16) = [before @ [''-sample_fmt'', ''s16''] @ after])
          \<and> (lower output_format = ''wav'' \<longrightarrow>
               invoked (Some 16) = [before @ [''-c:a'', ''pcm_s16le''] @ after]
               \<and> invoked (Some 24) = [before @ [''-c:a'', ''pcm_s24le''] @ after]
               \<and> invoked (Some 32) = [before @ [''-c:a'', ''pcm_s32le''] @ after])"
  using assms
  by (simp add: Let_def invoked_by_def single_convert_invocations build_command_layout
      argv_layout_def bit_depth_args_def)

theorem bit_depth_override_witness:
  "invoked_by start (snd (single_convert (one_file_os ''a.wav'' Completed) ''a.wav'' ''flac''
       None None None None (Some 24) None start)) =
   [[''ffmpeg'', ''-i'', ''a.wav'', ''-c:a'', ''flac'', ''-sample_fmt'', ''s32'', ''a.flac'']]
   \<and> invoked_by start (snd (single_convert (one_file_os ''a.wav'' Completed) ''a.wav'' ''flac''
       None None None None (Some 24) None start)) =
     invoked_by start (snd (single_convert (one_file_os ''a.wav'' Completed) ''a.wav'' ''flac''
       None None None None (Some 32) None start))
   \<and> invoked_by start (snd (single_convert (one_file_os ''a.mp3'' Completed) ''a.mp3'' ''WAV''
       None None None None (Some 24) None start)) =
     [[''ffmpeg'', ''-i'', ''a.mp3'', ''-c:a'', ''pcm_s16le'', ''-c:a'', ''pcm_s24le'',
       ''a.wav'']]"
proof -
  have a: "os_path_exists (one_file_os ''a.wav'' Completed) (fs start) ''a.wav''"
    and b: "os_path_exists (one_file_os ''a.mp3'' Completed) (fs start) ''a.mp3''"
    by (simp_all add: one_file_os_def)
  have s: "splitext ''a.wav'' = (''a'', ''.wav'')" "splitext ''a.mp3'' = (''a'', ''.mp3'')"
    by (simp_all add: splitext_def leading_dots.simps)
  have e: "output_extension ''flac'' = ''.flac''" "output_extension ''WAV'' = ''.wav''"
    by (simp_all add: output_extension_def dict_get_def format_extensions_def lower_def
        lower_char_def)
  have l: "lower ''flac'' = ''flac''" "lower ''WAV'' = ''wav''"
    by (simp_all add: lower_def lower_char_def)
  from bit_depth_override [OF a, of "''flac''" None None None None None]
    bit_depth_override [OF b, of "''WAV''" None None None None None]
  show ?thesis
    by (simp add: Let_def l s e get_format_settings_def sample_rate_args_def channel_args_def
        extra_list_def resolved_output_def)
qed

text \<open>
  Claim C10. The single-file converter tests its optional numbers for truth, not for
  \<^verbatim>\<open>None\<close>: with the sample rate 0, or with the channel count 0, it does exactly what it
  does with \<^verbatim>\<open>None\<close> in that place, and with a bit depth that is none of 16, 24 and 32 (0
  among them), whatever the format, exactly what it does without a bit depth. No
  argument is added and no error arises.
\<close>

theorem falsy_options_are_absent:
  "single_convert os input_file output_format output_file compression_level (Some 0)
     channels bit_depth extra_args w =
   single_convert os input_file output_format output_file compression_level None
     channels bit_depth extra_args w
   \<and> single_convert os input_file output_format output_file compression_level sample_rate
       (Some 0) bit_depth extra_args w =
     single_convert os input_file output_format output_file compression_level sample_rate
       None bit_depth extra_args w
   \<and> (b \<notin> {16, 24, 32} \<longrightarrow>
       single_convert os input_file output_format output_file compression_level sample_rate
         channels (Some b) extra_args w =
       single_convert os input_file output_format output_file compression_level sample_rate
         channels None extra_args w)"
  by (simp add: single_convert_def build_command_layout argv_layout_def sample_rate_args_def
      channel_args_def bit_depth_args_def)

theorem falsy_options_are_absent_witness:
  "single_convert (one_file_os ''a.mp3'' Completed) ''a.mp3'' ''wav'' None (Some 5) (Some 0)
     (Some 0) (Some 8) None start =
   (Inr (Some ''a.wav''),
    \<lparr>fs = (), trace = [Run [''ffmpeg'', ''-i'', ''a.mp3'', ''-c:a'', ''pcm_s16le'', ''a.wav''],
       Print ''Successfully converted a.mp3 to a.wav'']\<rparr>)
   \<and> single_convert (one_file_os ''a.mp3'' Completed) ''a.mp3'' ''flac'' None None None
     None (Some 0) None start =
   (Inr (Some ''a.flac''),
    \<lparr>fs = (), trace = [Run [''ffmpeg'', ''-i'', ''a.mp3'', ''-c:a'', ''flac'', ''a.flac''],
       Print ''Successfully converted a.mp3 to a.flac'']\<rparr>)"
proof -
  have s: "splitext ''a.mp3'' = (''a'', ''.mp3'')"
    by (simp add: splitext_def leading_dots.simps)
  have e: "output_extension ''flac'' = ''.flac''" "output_extension ''wav'' = ''.wav''"
    by (simp_all add: output_extension_def dict_get_def format_extensions_def lower_def
        lower_char_def)
  have l: "lower ''flac'' = ''flac''" "lower ''wav'' = ''wav''"
    by (simp_all add: lower_def lower_char_def)
  have n: "single_convert (one_file_os ''a.mp3'' Completed) ''a.mp3'' ''wav'' None (Some 5)
       None None None None start =
     (Inr (Some ''a.wav''),
      \<lparr>fs = (), trace = [Run [''ffmpeg'', ''-i'', ''a.mp3'', ''-c:a'', ''pcm_s16le'', ''a.wav''],
         Print ''Successfully converted a.mp3 to a.wav'']\<rparr>)"
    "single_convert (one_file_os ''a.mp3'' Completed) ''a.mp3'' ''flac'' None None None
       None None None start =
     (Inr (Some ''a.flac''),
      \<lparr>fs = (), trace = [Run [''ffmpeg'', ''-i'', ''a.mp3'', ''-c:a'', ''flac'', ''a.flac''],
         Print ''Successfully converted a.mp3 to a.flac'']\<rparr>)"
    by (simp_all add: single_convert_def build_command_layout argv_layout_def l s e
        get_format_settings_def sample_rate_args_def channel_args_def bit_depth_args_def
        extra_list_def resolved_output_def one_file_os_def start_def emit_def)
  let ?os = "one_file_os ''a.mp3'' Completed"
  have 1: "single_convert ?os ''a.mp3'' ''wav'' None (Some 5) (Some 0) (Some 0) (Some 8) None start =
      single_convert ?os ''a.mp3'' ''wav'' None (Some 5) None (Some 0) (Some 8) None start"
    using falsy_options_are_absent [where os = ?os and channels = "Some 0"
        and bit_depth = "Some 8"] by blast
  have 2: "single_convert ?os ''a.mp3'' ''wav'' None (Some 5) None (Some 0) (Some 8) None start =
      single_convert ?os ''a.mp3'' ''wav'' None (Some 5) None None (Some 8) None start"
    using falsy_options_are_absent [where os = ?os and sample_rate = None
        and bit_depth = "Some 8"] by blast
  have "(8::int) \<notin> {16, 24, 32}" and "(0::int) \<notin> {16, 24, 32}"
    by simp_all
  then have 3: "single_convert ?os ''a.mp3'' ''wav'' None (Some 5) None None (Some 8) None start =
      single_convert ?os ''a.mp3'' ''wav'' None (Some 5) None None None None start"
    and 4: "single_convert ?os ''a.mp3'' ''flac'' None None None None (Some 0) None start =
      single_convert ?os ''a.mp3'' ''flac'' None None None None None None start"
    using falsy_options_are_absent [where os = ?os and sample_rate = None and channels = None
        and b = 8]
      falsy_options_are_absent [where os = ?os and sample_rate = None and channels = None
        and b = 0]
    by blast+
  show ?thesis
    unfolding 1 2 3 4 using n by (rule conjI)
qed

end
